theory Spec2Isabelle
  imports Main "HOL-Library.Word"
begin

section \<open>Platform values used by \<open>api/proxy.js\<close>\<close>

text \<open>
  The handler of \<open>api/proxy.js\<close> runs on an edge runtime and talks to the Web platform:
  \<open>URL\<close>, \<open>URLSearchParams\<close>, \<open>Headers\<close>, \<open>fetch\<close>, \<open>AbortController\<close>, timers,
  \<open>TransformStream\<close> and \<open>Response\<close>. None of these is code of the repository. Each is
  modelled here by the part of its standard behaviour that the handler can observe; what
  the network and the URL parser answer is an input (the record \<open>world\<close> below).
\<close>

subsection \<open>Errors and promises\<close>

text \<open>A thrown JavaScript error, as far as the handler reads it: \<open>e.name\<close>, \<open>e.message\<close>.\<close>

datatype js_error = JsError (name: string) (message: string)

text \<open>
  \<open>controller.abort()\<close> without a reason makes the signal's reason a \<open>DOMException\<close> named
  \<open>AbortError\<close>; a fetch bound to the signal rejects with it.
\<close>

definition abort_error :: js_error where
  "abort_error = JsError ''AbortError'' ''This operation was aborted''"

datatype 'a promise = Fulfilled 'a | Rejected js_error

text \<open>\<open>p.catch(h)\<close>: a rejection is handed to \<open>h\<close> and the new promise is fulfilled.\<close>

definition catch_promise :: "(js_error \<Rightarrow> 'a) \<Rightarrow> 'a promise \<Rightarrow> 'a promise" where
  "catch_promise h p = (case p of Fulfilled v \<Rightarrow> Fulfilled v | Rejected e \<Rightarrow> Fulfilled (h e))"

text \<open>A promise nobody awaits surfaces its rejection as an unhandled fault.\<close>

definition unhandled_of :: "'a promise \<Rightarrow> js_error list" where
  "unhandled_of p = (case p of Fulfilled v \<Rightarrow> [] | Rejected e \<Rightarrow> [e])"

subsection \<open>Numbers in template strings\<close>

definition digit_char :: "nat \<Rightarrow> char" where
  "digit_char d = ''0123456789'' ! d"

fun show_nat :: "nat \<Rightarrow> string" where
  "show_nat n = (if n < 10 then [digit_char n] else show_nat (n div 10) @ [digit_char (n mod 10)])"

subsection \<open>URLs and their query parameters\<close>

text \<open>
  \<open>URLSearchParams\<close> is an ordered list of name/value pairs in which a name may repeat.
\<close>

type_synonym params = "(string \<times> string) list"

text \<open>\<open>searchParams.get(name)\<close>: the value of the first pair of that name, or \<open>null\<close>.\<close>

definition sp_get :: "params \<Rightarrow> string \<Rightarrow> string option" where
  "sp_get ps n = map_of ps n"

text \<open>
  \<open>searchParams.set(name, value)\<close>: the first pair of that name takes the value and the later
  pairs of that name are removed; with no such pair, the pair is appended.
\<close>

fun sp_set :: "string \<Rightarrow> string \<Rightarrow> params \<Rightarrow> params" where
  "sp_set n v [] = [(n, v)]"
| "sp_set n v (p # ps) =
     (if fst p = n then (n, v) # filter (\<lambda>q. fst q \<noteq> n) ps else p # sp_set n v ps)"

text \<open>
  A parsed URL, by the properties the handler reads or writes (\<open>host\<close>, \<open>pathname\<close>,
  \<open>searchParams\<close>) and its scheme. \<open>opaque_path\<close> is the URL Standard's flag of a URL
  whose path is one opaque string (\<open>mailto:\<close>, \<open>data:\<close>) and not a list of segments.
\<close>

record url =
  protocol :: string
  host :: string
  pathname :: string
  searchParams :: params
  opaque_path :: bool

text \<open>
  The \<open>pathname\<close> setter. By the URL Standard it returns at once when the URL has an
  opaque path; otherwise it empties the path and parses the assigned string again, from
  the path start state, under the scheme of the URL.

  The string assigned in the handler is the \<open>pathname\<close> of the request URL, which the
  platform has serialised from an \<open>http:\<close> or \<open>https:\<close> URL: it starts with a slash and
  holds no dot segments, no backslashes and no character left to escape. Parsing such a
  string again gives the same segments, with one exception: under the scheme \<open>file:\<close>, a
  first segment that is a Windows drive letter written with a bar (\<open>C|\<close>) is rewritten
  with a colon (\<open>C:\<close>). \<open>reparse_path\<close> is that second parse, on such strings.
\<close>

definition ascii_alpha :: "char \<Rightarrow> bool" where
  "ascii_alpha c = (c \<in> set ''ABCDEFGHIJKLMNOPQRSTUVWXYZabcdefghijklmnopqrstuvwxyz'')"

definition reparse_path :: "string \<Rightarrow> string \<Rightarrow> string" where
  "reparse_path scheme p =
     (case p of
        s # a # b # rest \<Rightarrow>
          if scheme = ''file:'' \<and> s = CHR ''/'' \<and> ascii_alpha a \<and> b = CHR ''|''
             \<and> (case rest of [] \<Rightarrow> True | c # cs \<Rightarrow> c = CHR ''/'')
          then s # a # CHR '':'' # rest
          else p
      | _ \<Rightarrow> p)"

definition set_pathname :: "url \<Rightarrow> string \<Rightarrow> url" where
  "set_pathname u p =
     (if opaque_path u then u else u\<lparr>pathname := reparse_path (protocol u) p\<rparr>)"

subsection \<open>Headers\<close>

text \<open>
  A \<open>Headers\<close> object matches names without regard to ASCII case: it is a map from the
  lower-cased name to the value.
\<close>

type_synonym headers = "string \<Rightarrow> string option"

definition lower_char :: "char \<Rightarrow> char" where
  "lower_char c =
     (case map_of (zip ''ABCDEFGHIJKLMNOPQRSTUVWXYZ'' ''abcdefghijklmnopqrstuvwxyz'') c of
        Some l \<Rightarrow> l
      | None \<Rightarrow> c)"

definition lower :: "string \<Rightarrow> string" where
  "lower s = map lower_char s"

definition headers_get :: "headers \<Rightarrow> string \<Rightarrow> string option" where
  "headers_get h n = h (lower n)"

definition headers_set :: "headers \<Rightarrow> string \<Rightarrow> string \<Rightarrow> headers" where
  "headers_set h n v = h(lower n \<mapsto> v)"

definition headers_delete :: "headers \<Rightarrow> string \<Rightarrow> headers" where
  "headers_delete h n = h(lower n := None)"

subsection \<open>Requests, responses and streams\<close>

type_synonym byte = "8 word"
type_synonym chunk = "byte list"

text \<open>The inbound request: \<open>req.url\<close>, \<open>req.method\<close>, \<open>req.headers\<close>, \<open>req.body\<close>.\<close>

record request =
  req_url :: string
  req_method :: string
  req_headers :: headers
  req_body :: "chunk list option"

text \<open>The arguments of the upstream \<open>fetch\<close> call (the signal is the timer, below).\<close>

record fetch_init =
  fetch_url :: url
  fetch_method :: string
  fetch_headers :: headers
  fetch_body :: "chunk list option"
  fetch_redirect :: string

text \<open>
  A response: the upstream's carries a body of chunks, each with the time in milliseconds
  (counted from the \<open>fetch\<close> call) at which it arrives, or no body (\<open>null\<close>); the
  caller-facing one carries a text or the readable side of the relay.
\<close>

record 'b response =
  status :: nat
  statusText :: string
  headers :: headers
  body :: 'b

type_synonym upstream_response = "((nat \<times> chunk) list option) response"

datatype stream_state = Open | Closed | Errored js_error

text \<open>
  The relay of one request: the counter \<open>downloadedBytes\<close>, the chunks enqueued on the
  readable side (which the caller reads in that order), and the state of that side:
  still open, closed after the last chunk, or errored.
\<close>

record shaping =
  downloadedBytes :: nat
  enqueued :: "chunk list"
  state :: stream_state

datatype body_out = Text string | Stream shaping

type_synonym client_response = "body_out response"

subsection \<open>The world outside the handler\<close>

text \<open>
  What the upstream does with a call: it answers with status, headers and body after some
  milliseconds, or the call fails with a network fault (a \<open>TypeError\<close> with a message)
  after some milliseconds.
\<close>

datatype upstream_reply = Responds nat upstream_response | Faults nat string

text \<open>
  \<open>new URL(s)\<close> is the platform's parser: it gives the parsed URL, or throws a
  \<open>TypeError\<close> whose message is the left value.
\<close>

record world =
  new_URL :: "string \<Rightarrow> string + url"
  upstream :: "fetch_init \<Rightarrow> upstream_reply"

text \<open>The time at which the upstream call settles by itself.\<close>

fun reply_time :: "upstream_reply \<Rightarrow> nat" where
  "reply_time (Responds at r) = at"
| "reply_time (Faults at m) = at"

subsection \<open>Timer and cancellation signal\<close>

datatype timer = Idle | Armed nat | Cleared

text \<open>
  \<open>setTimeout(() => controller.abort(), ms)\<close> arms the timer; the signal has fired at time
  \<open>now\<close> when the timer is still armed and its delay has passed. \<open>clearTimeout\<close> disarms.
\<close>

definition setTimeout :: "nat \<Rightarrow> timer" where
  "setTimeout ms = Armed ms"

definition clearTimeout :: "timer \<Rightarrow> timer" where
  "clearTimeout t = Cleared"

definition signal_fired :: "timer \<Rightarrow> nat \<Rightarrow> bool" where
  "signal_fired t now = (case t of Armed ms \<Rightarrow> ms \<le> now | Idle \<Rightarrow> False | Cleared \<Rightarrow> False)"

text \<open>
  \<open>await fetch(..., {signal})\<close>: the promise is rejected with the abort reason when the
  signal fires before the upstream has answered or failed; when both fall on the same
  millisecond the signal is taken to come first. Any other failure of the call is a
  \<open>TypeError\<close>.
\<close>

definition fetch :: "timer \<Rightarrow> upstream_reply \<Rightarrow> upstream_response promise" where
  "fetch t reply =
     (case reply of
        Responds at r \<Rightarrow> if signal_fired t at then Rejected abort_error else Fulfilled r
      | Faults at m \<Rightarrow>
          if signal_fired t at then Rejected abort_error else Rejected (JsError ''TypeError'' m))"

subsection \<open>The \<open>Response\<close> constructor\<close>

text \<open>
  \<open>new Response(body, {status, statusText, headers})\<close> by the Fetch Standard (the
  constructor and its step \<^emph>\<open>initialize a response\<close>): a status outside 200..599 throws a
  \<open>RangeError\<close>, and a body that is not \<open>null\<close> together with a null body status (101, 103,
  204, 205, 304) throws a \<open>TypeError\<close>. Every body this constructor is given here is a
  stream or a text, never \<open>null\<close>. The wording of the two messages is the runtime's; the
  one written here is that of the runtime's fetch library.
\<close>

definition null_body_status :: "nat \<Rightarrow> bool" where
  "null_body_status s = (s = 101 \<or> s = 103 \<or> s = 204 \<or> s = 205 \<or> s = 304)"

definition new_Response :: "body_out \<Rightarrow> nat \<Rightarrow> string \<Rightarrow> headers \<Rightarrow> js_error + client_response" where
  "new_Response b st stt hs =
     (if st < 200 \<or> 599 < st then
        Inl (JsError ''RangeError'' ''init[\"status\"] must be in the range of 200 to 599, inclusive.'')
      else if null_body_status st then
        Inl (JsError ''TypeError'' (''Response constructor: Invalid response status code '' @ show_nat st))
      else Inr \<lparr>status = st, statusText = stt, headers = hs, body = b\<rparr>)"

text \<open>
  \<open>new Response(text, {status})\<close> for the two statuses the handler uses with a text (400 and
  502): it cannot throw, and the text is served as plain text.
\<close>

definition text_Response :: "string \<Rightarrow> nat \<Rightarrow> client_response" where
  "text_Response s st =
     \<lparr>status = st, statusText = [],
      headers = [''content-type'' \<mapsto> ''text/plain;charset=UTF-8''], body = Text s\<rparr>"

section \<open>The handler of \<open>api/proxy.js\<close>\<close>

definition MAX_BYTES :: nat where
  "MAX_BYTES = 10 * 1024 * 1024"

definition MAX_DURATION_MS :: nat where
  "MAX_DURATION_MS = 15000"

text \<open>Lines 31 to 35: the \<open>forEach\<close> over the inbound parameters, in their order.\<close>

fun copy_params :: "params \<Rightarrow> url \<Rightarrow> url" where
  "copy_params [] targetUrl = targetUrl"
| "copy_params ((key, v) # rest) targetUrl =
     copy_params rest
       (if key \<noteq> ''target''
        then targetUrl\<lparr>searchParams := sp_set key v (searchParams targetUrl)\<rparr>
        else targetUrl)"

text \<open>Lines 28 to 35: the derived upstream URL.\<close>

definition derive_target :: "url \<Rightarrow> url \<Rightarrow> url" where
  "derive_target u targetUrl = copy_params (searchParams u) (set_pathname targetUrl (pathname u))"

text \<open>Lines 38 to 41: the outbound headers.\<close>

definition outbound_headers :: "request \<Rightarrow> url \<Rightarrow> headers" where
  "outbound_headers req targetUrl =
     headers_delete
       (headers_delete (headers_set (req_headers req) ''Host'' (host targetUrl)) ''x-forwarded-host'')
       ''x-vercel-id''"

text \<open>
  Lines 63 to 75: \<open>transform(chunk, controller)\<close>. The division in the message is exact
  (\<open>MAX_BYTES\<close> is a multiple of \<open>1024 * 1024\<close>), so the number prints as an integer.
\<close>

definition errorMsg :: string where
  "errorMsg = ''Traffic Limit Exceeded: >'' @ show_nat (MAX_BYTES div 1024 div 1024) @ ''MB''"

definition transform :: "chunk \<Rightarrow> shaping \<Rightarrow> shaping" where
  "transform c s =
     (let s' = s\<lparr>downloadedBytes := downloadedBytes s + length c\<rparr> in
      if downloadedBytes s' > MAX_BYTES
      then s'\<lparr>state := Errored (JsError ''Error'' errorMsg)\<rparr>
      else s'\<lparr>enqueued := enqueued s' @ [c]\<rparr>)"

text \<open>
  Line 81: \<open>response.body.pipeTo(writable)\<close>. The pipe hands the chunks to \<open>transform\<close> one
  at a time. When the source ends the pipe closes the relay and fulfils its promise; when
  \<open>transform\<close> has errored the relay, the pipe cancels the source, hands over no further
  chunk and rejects its promise. If the signal of the fetch fires while the body is still
  arriving, the source errors with the abort reason and the pipe passes that on.
\<close>

fun pipeTo :: "timer \<Rightarrow> (nat \<times> chunk) list \<Rightarrow> shaping \<Rightarrow> shaping \<times> unit promise" where
  "pipeTo t [] s = (s\<lparr>state := Closed\<rparr>, Fulfilled ())"
| "pipeTo t ((at, c) # rest) s =
     (if signal_fired t at then (s\<lparr>state := Errored abort_error\<rparr>, Rejected abort_error)
      else
        let s' = transform c s in
        (case state s' of
           Errored e \<Rightarrow> (s', Rejected e)
         | Open \<Rightarrow> pipeTo t rest s'
         | Closed \<Rightarrow> pipeTo t rest s'))"

text \<open>
  What the handler did besides answering: the URL strings it parsed, the line it logged
  and the upstream calls it made, in order.
\<close>

datatype event = ParseURL string | ConsoleLog url | Fetch fetch_init

datatype outcome = Returned client_response | Threw js_error

record result =
  outcome :: outcome
  events :: "event list"
  timeoutId :: timer
  unhandled :: "js_error list"

text \<open>Lines 90 to 94: the \<open>catch\<close> block.\<close>

definition catch_block :: "js_error \<Rightarrow> client_response" where
  "catch_block e =
     (let msg = (if name e = ''AbortError'' then ''Connection Timed Out (Policy Limit)'' else message e)
      in text_Response (''Proxy Blocked: '' @ msg) 502)"

text \<open>Lines 49 to 55: the arguments of the upstream call.\<close>

definition fetch_args :: "request \<Rightarrow> url \<Rightarrow> fetch_init" where
  "fetch_args req targetUrl =
     \<lparr>fetch_url = targetUrl, fetch_method = req_method req,
      fetch_headers = outbound_headers req targetUrl,
      fetch_body = req_body req, fetch_redirect = ''follow''\<rparr>"

text \<open>
  Lines 60 to 82, after the upstream has answered: the relay is created and the body, when
  there is one, is piped into it, with the rejection of the pipe swallowed by
  \<open>.catch(() => {})\<close>. With no body nothing is ever written to the relay and nothing closes
  it.
\<close>

definition relay :: "timer \<Rightarrow> upstream_response \<Rightarrow> shaping \<times> unit promise" where
  "relay t r =
     (let s0 = \<lparr>downloadedBytes = 0, enqueued = [], state = Open\<rparr> in
      case body r of
        None \<Rightarrow> (s0, Fulfilled ())
      | Some cs \<Rightarrow> (case pipeTo t cs s0 of (s, p) \<Rightarrow> (s, catch_promise (\<lambda>e. ()) p)))"

text \<open>
  The handler. \<open>new URL(req.url)\<close> on line 16 stands before the \<open>try\<close>, so its error would
  leave the handler; everything from line 25 on is inside it. \<open>!targetParam\<close> holds for
  \<open>null\<close> and for the empty string.
\<close>

definition handler :: "world \<Rightarrow> request \<Rightarrow> result" where
  "handler w req =
     (case new_URL w (req_url req) of
        Inl m \<Rightarrow>
          \<lparr>outcome = Threw (JsError ''TypeError'' m), events = [ParseURL (req_url req)],
           timeoutId = Idle, unhandled = []\<rparr>
      | Inr u \<Rightarrow>
          (case sp_get (searchParams u) ''target'' of
             None \<Rightarrow>
               \<lparr>outcome = Returned (text_Response ''Error: Missing \"target\" query parameter.'' 400),
                events = [ParseURL (req_url req)], timeoutId = Idle, unhandled = []\<rparr>
           | Some targetParam \<Rightarrow>
               if targetParam = [] then
                 \<lparr>outcome = Returned (text_Response ''Error: Missing \"target\" query parameter.'' 400),
                  events = [ParseURL (req_url req)], timeoutId = Idle, unhandled = []\<rparr>
               else
                 (case new_URL w targetParam of
                    Inl m \<Rightarrow>
                      \<lparr>outcome = Returned (catch_block (JsError ''TypeError'' m)),
                       events = [ParseURL (req_url req), ParseURL targetParam],
                       timeoutId = Idle, unhandled = []\<rparr>
                  | Inr targetUrl0 \<Rightarrow>
                      let targetUrl = derive_target u targetUrl0;
                          init = fetch_args req targetUrl;
                          t = setTimeout MAX_DURATION_MS;
                          evs = [ParseURL (req_url req), ParseURL targetParam,
                                 ConsoleLog targetUrl, Fetch init]
                      in
                      (case fetch t (upstream w init) of
                         Rejected e \<Rightarrow>
                           \<lparr>outcome = Returned (catch_block e), events = evs,
                            timeoutId = t, unhandled = []\<rparr>
                       | Fulfilled r \<Rightarrow>
                           let t' = clearTimeout t in
                           (case relay t' r of
                              (readable, piped) \<Rightarrow>
                                \<lparr>outcome =
                                   (case new_Response (Stream readable) (status r) (statusText r) (headers r) of
                                      Inl e \<Rightarrow> Returned (catch_block e)
                                    | Inr answer \<Rightarrow> Returned answer),
                                 events = evs, timeoutId = t',
                                 unhandled = unhandled_of piped\<rparr>)))))"

text \<open>The upstream calls among the events, and the strings handed to the URL parser.\<close>

fun fetch_calls :: "event list \<Rightarrow> fetch_init list" where
  "fetch_calls [] = []"
| "fetch_calls (Fetch i # es) = i # fetch_calls es"
| "fetch_calls (ParseURL s # es) = fetch_calls es"
| "fetch_calls (ConsoleLog u # es) = fetch_calls es"

section \<open>A sample world and sample requests\<close>

text \<open>
  Concrete inputs on which the theorems below are instantiated: a table standing for the
  URL parser on the strings used, an upstream whose answer depends on the path asked
  for, and requests as the edge platform hands them over.
\<close>

definition proxy_url :: "string \<Rightarrow> params \<Rightarrow> url" where
  "proxy_url p q =
     \<lparr>protocol = ''https:'', host = ''proxy.example'', pathname = p, searchParams = q,
      opaque_path = False\<rparr>"

definition origin_url :: "string \<Rightarrow> params \<Rightarrow> url" where
  "origin_url p q =
     \<lparr>protocol = ''https:'', host = ''example.com'', pathname = p, searchParams = q,
      opaque_path = False\<rparr>"

definition file_url :: url where
  "file_url =
     \<lparr>protocol = ''file:'', host = [], pathname = ''/x'', searchParams = [],
      opaque_path = False\<rparr>"

definition data_url :: url where
  "data_url =
     \<lparr>protocol = ''data:'', host = [], pathname = ''text/plain,hello'', searchParams = [],
      opaque_path = True\<rparr>"

definition sample_urls :: "(string \<times> url) list" where
  "sample_urls =
     [(''https://proxy.example/foo?x=1'', proxy_url ''/foo'' [(''x'', ''1'')]),
      (''https://proxy.example/foo?target='', proxy_url ''/foo'' [(''target'', [])]),
      (''https://proxy.example/foo?target=example.com'',
         proxy_url ''/foo'' [(''target'', ''example.com'')]),
      (''https://proxy.example/foo?target=https://example.com/bar&x=1'',
         proxy_url ''/foo'' [(''target'', ''https://example.com/bar''), (''x'', ''1'')]),
      (''https://proxy.example/p?x=5&target=https%3A%2F%2Fexample.com%2F%3Fx%3D1%26y%3D7&x=2'',
         proxy_url ''/p'' [(''x'', ''5''), (''target'', ''https://example.com/?x=1&y=7''), (''x'', ''2'')]),
      (''https://proxy.example/foo?target=data:text/plain,hello'',
         proxy_url ''/foo'' [(''target'', ''data:text/plain,hello'')]),
      (''https://proxy.example/big?target=https://example.com'',
         proxy_url ''/big'' [(''target'', ''https://example.com'')]),
      (''https://proxy.example/slow?target=https://example.com'',
         proxy_url ''/slow'' [(''target'', ''https://example.com'')]),
      (''https://proxy.example/down?target=https://example.com'',
         proxy_url ''/down'' [(''target'', ''https://example.com'')]),
      (''https://proxy.example/cached?target=https://example.com'',
         proxy_url ''/cached'' [(''target'', ''https://example.com'')]),
      (''https://example.com'', origin_url ''/'' []),
      (''https://example.com/bar'', origin_url ''/bar'' []),
      (''https://example.com/?x=1&y=7'', origin_url ''/'' [(''x'', ''1''), (''y'', ''7'')]),
      (''data:text/plain,hello'', data_url),
      (''https://proxy.example/C|/foo?target=file:///x'',
         proxy_url ''/C|/foo'' [(''target'', ''file:///x'')]),
      (''file:///x'', file_url)]"

definition sample_new_URL :: "string \<Rightarrow> string + url" where
  "sample_new_URL s = (case map_of sample_urls s of None \<Rightarrow> Inl ''Invalid URL'' | Some u \<Rightarrow> Inr u)"

definition page :: upstream_response where
  "page =
     \<lparr>status = 200, statusText = ''OK'', headers = [''content-type'' \<mapsto> ''text/html''],
      body = Some [(50, [104, 105]), (20000, [33])]\<rparr>"

definition download :: upstream_response where
  "download =
     \<lparr>status = 200, statusText = ''OK'',
      headers = [''content-type'' \<mapsto> ''application/octet-stream''],
      body = Some [(50, replicate MAX_BYTES 0), (60, [1]), (70, [2])]\<rparr>"

definition not_modified :: upstream_response where
  "not_modified = \<lparr>status = 304, statusText = ''Not Modified'', headers = Map.empty, body = None\<rparr>"

definition sample_upstream :: "fetch_init \<Rightarrow> upstream_reply" where
  "sample_upstream init =
     (let p = pathname (fetch_url init) in
      if p = ''/big'' then Responds 40 download
      else if p = ''/slow'' then Responds 20000 page
      else if p = ''/down'' then Faults 30 ''fetch failed''
      else if p = ''/cached'' then Responds 25 not_modified
      else Responds 40 page)"

definition sample_world :: world where
  "sample_world = \<lparr>new_URL = sample_new_URL, upstream = sample_upstream\<rparr>"

text \<open>The same upstream with every chunk of the page arriving at once.\<close>

definition prompt_world :: world where
  "prompt_world =
     \<lparr>new_URL = sample_new_URL,
      upstream = (\<lambda>init. Responds 10 (page\<lparr>body := Some [(10, [104, 105]), (10, [33])]\<rparr>))\<rparr>"

definition sample_headers :: headers where
  "sample_headers =
     [''host'' \<mapsto> ''proxy.example'', ''x-forwarded-host'' \<mapsto> ''proxy.example'',
      ''x-vercel-id'' \<mapsto> ''fra1::k9x2m'', ''accept'' \<mapsto> ''text/html'']"

definition sample_request :: "string \<Rightarrow> request" where
  "sample_request s =
     \<lparr>req_url = s, req_method = ''GET'', req_headers = sample_headers, req_body = None\<rparr>"

section \<open>The branches of the handler\<close>

lemma handler_missing:
  assumes "new_URL w (req_url req) = Inr u" and "sp_get (searchParams u) ''target'' = None"
  shows "handler w req =
           \<lparr>outcome = Returned (text_Response ''Error: Missing \"target\" query parameter.'' 400),
            events = [ParseURL (req_url req)], timeoutId = Idle, unhandled = []\<rparr>"
  using assms by (simp add: handler_def)

lemma handler_empty:
  assumes "new_URL w (req_url req) = Inr u" and "sp_get (searchParams u) ''target'' = Some []"
  shows "handler w req =
           \<lparr>outcome = Returned (text_Response ''Error: Missing \"target\" query parameter.'' 400),
            events = [ParseURL (req_url req)], timeoutId = Idle, unhandled = []\<rparr>"
  using assms by (simp add: handler_def)

lemma handler_invalid:
  assumes "new_URL w (req_url req) = Inr u" and "sp_get (searchParams u) ''target'' = Some tp"
    and "tp \<noteq> []" and "new_URL w tp = Inl m"
  shows "handler w req =
           \<lparr>outcome = Returned (catch_block (JsError ''TypeError'' m)),
            events = [ParseURL (req_url req), ParseURL tp], timeoutId = Idle, unhandled = []\<rparr>"
  using assms by (simp add: handler_def)

lemma handler_events:
  assumes "new_URL w (req_url req) = Inr u" and "sp_get (searchParams u) ''target'' = Some tp"
    and "tp \<noteq> []" and "new_URL w tp = Inr t0"
  shows "events (handler w req) =
           [ParseURL (req_url req), ParseURL tp, ConsoleLog (derive_target u t0),
            Fetch (fetch_args req (derive_target u t0))]"
  using assms by (simp add: handler_def Let_def split: promise.split prod.split)

lemma handler_rejected:
  assumes "new_URL w (req_url req) = Inr u" and "sp_get (searchParams u) ''target'' = Some tp"
    and "tp \<noteq> []" and "new_URL w tp = Inr t0"
    and "fetch (Armed MAX_DURATION_MS) (upstream w (fetch_args req (derive_target u t0))) = Rejected e"
  shows "outcome (handler w req) = Returned (catch_block e)"
    and "timeoutId (handler w req) = Armed MAX_DURATION_MS"
    and "unhandled (handler w req) = []"
  using assms by (simp_all add: handler_def Let_def setTimeout_def)

lemma handler_fulfilled:
  assumes "new_URL w (req_url req) = Inr u" and "sp_get (searchParams u) ''target'' = Some tp"
    and "tp \<noteq> []" and "new_URL w tp = Inr t0"
    and "fetch (Armed MAX_DURATION_MS) (upstream w (fetch_args req (derive_target u t0))) = Fulfilled r"
  shows "outcome (handler w req) =
           (case new_Response (Stream (fst (relay Cleared r))) (status r) (statusText r) (headers r) of
              Inl e \<Rightarrow> Returned (catch_block e)
            | Inr answer \<Rightarrow> Returned answer)"
    and "timeoutId (handler w req) = Cleared"
    and "unhandled (handler w req) = unhandled_of (snd (relay Cleared r))"
  using assms
  by (simp_all add: handler_def Let_def setTimeout_def clearTimeout_def split: prod.split)

section \<open>Evaluating the sample world\<close>

lemma sample_parse:
  "new_URL sample_world s = (case map_of sample_urls s of None \<Rightarrow> Inl ''Invalid URL'' | Some u \<Rightarrow> Inr u)"
  by (simp add: sample_world_def sample_new_URL_def)

lemma sample_request_simps:
  "req_url (sample_request s) = s"
  "req_method (sample_request s) = ''GET''"
  "req_headers (sample_request s) = sample_headers"
  "req_body (sample_request s) = None"
  by (simp_all add: sample_request_def)

section \<open>Requests without a usable target\<close>

text \<open>
  C1. A request whose query string has no \<open>target\<close> parameter is answered with status 400
  and a plain-text error body, and no upstream call is made.
\<close>

theorem missing_target_rejected:
  assumes "new_URL w (req_url req) = Inr u"
    and "''target'' \<notin> fst ` set (searchParams u)"
  shows "outcome (handler w req) =
           Returned \<lparr>status = 400, statusText = [],
                     headers = [''content-type'' \<mapsto> ''text/plain;charset=UTF-8''],
                     body = Text ''Error: Missing \"target\" query parameter.''\<rparr>
         \<and> fetch_calls (events (handler w req)) = []"
proof -
  from assms(2) have "sp_get (searchParams u) ''target'' = None"
    by (simp add: sp_get_def map_of_eq_None_iff)
  with assms(1) show ?thesis
    by (simp add: handler_missing text_Response_def)
qed

theorem missing_target_rejected_witness:
  "new_URL sample_world (req_url (sample_request ''https://proxy.example/foo?x=1''))
     = Inr (proxy_url ''/foo'' [(''x'', ''1'')])
   \<and> ''target'' \<notin> fst ` set (searchParams (proxy_url ''/foo'' [(''x'', ''1'')]))
   \<and> outcome (handler sample_world (sample_request ''https://proxy.example/foo?x=1'')) =
           Returned \<lparr>status = 400, statusText = [],
                     headers = [''content-type'' \<mapsto> ''text/plain;charset=UTF-8''],
                     body = Text ''Error: Missing \"target\" query parameter.''\<rparr>
   \<and> fetch_calls (events (handler sample_world (sample_request ''https://proxy.example/foo?x=1''))) = []"
proof -
  have p: "new_URL sample_world (req_url (sample_request ''https://proxy.example/foo?x=1''))
     = Inr (proxy_url ''/foo'' [(''x'', ''1'')])"
    by (simp add: sample_parse sample_request_simps sample_urls_def)
  have q: "''target'' \<notin> fst ` set (searchParams (proxy_url ''/foo'' [(''x'', ''1'')]))"
    by (simp add: proxy_url_def)
  from missing_target_rejected [OF p q] p q show ?thesis by simp
qed

text \<open>
  C10. A request that carries \<open>target\<close> with the empty string as its value is answered as
  if \<open>target\<close> were missing: status 400 with the same body, not 502; the only string
  handed to the URL parser is the request's own URL, and no upstream call is made.
\<close>

theorem empty_target_rejected:
  assumes "new_URL w (req_url req) = Inr u"
    and "sp_get (searchParams u) ''target'' = Some []"
  shows "outcome (handler w req) =
           Returned \<lparr>status = 400, statusText = [],
                     headers = [''content-type'' \<mapsto> ''text/plain;charset=UTF-8''],
                     body = Text ''Error: Missing \"target\" query parameter.''\<rparr>
         \<and> events (handler w req) = [ParseURL (req_url req)]
         \<and> fetch_calls (events (handler w req)) = []"
  using assms by (simp add: handler_empty text_Response_def)

theorem empty_target_rejected_witness:
  "new_URL sample_world (req_url (sample_request ''https://proxy.example/foo?target=''))
     = Inr (proxy_url ''/foo'' [(''target'', [])])
   \<and> sp_get (searchParams (proxy_url ''/foo'' [(''target'', [])])) ''target'' = Some []
   \<and> outcome (handler sample_world (sample_request ''https://proxy.example/foo?target='')) =
           Returned \<lparr>status = 400, statusText = [],
                     headers = [''content-type'' \<mapsto> ''text/plain;charset=UTF-8''],
                     body = Text ''Error: Missing \"target\" query parameter.''\<rparr>
   \<and> events (handler sample_world (sample_request ''https://proxy.example/foo?target=''))
     = [ParseURL ''https://proxy.example/foo?target='']"
proof -
  have p: "new_URL sample_world (req_url (sample_request ''https://proxy.example/foo?target=''))
     = Inr (proxy_url ''/foo'' [(''target'', [])])"
    by (simp add: sample_parse sample_request_simps sample_urls_def)
  have q: "sp_get (searchParams (proxy_url ''/foo'' [(''target'', [])])) ''target'' = Some []"
    by (simp add: proxy_url_def sp_get_def)
  from empty_target_rejected [OF p q] p q show ?thesis
    by (simp add: sample_request_simps)
qed

text \<open>
  C2, as stated, fails: the empty string is a \<open>target\<close> value that is present and that the
  URL parser rejects, and the handler answers it with 400, not 502.
\<close>

theorem unparsable_target_counterexample:
  "new_URL sample_world (req_url (sample_request ''https://proxy.example/foo?target=''))
     = Inr (proxy_url ''/foo'' [(''target'', [])])
   \<and> sp_get (searchParams (proxy_url ''/foo'' [(''target'', [])])) ''target'' = Some []
   \<and> new_URL sample_world [] = Inl ''Invalid URL''
   \<and> outcome (handler sample_world (sample_request ''https://proxy.example/foo?target='')) =
           Returned \<lparr>status = 400, statusText = [],
                     headers = [''content-type'' \<mapsto> ''text/plain;charset=UTF-8''],
                     body = Text ''Error: Missing \"target\" query parameter.''\<rparr>"
proof -
  have p: "new_URL sample_world (req_url (sample_request ''https://proxy.example/foo?target=''))
     = Inr (proxy_url ''/foo'' [(''target'', [])])"
    by (simp add: sample_parse sample_request_simps sample_urls_def)
  have q: "sp_get (searchParams (proxy_url ''/foo'' [(''target'', [])])) ''target'' = Some []"
    by (simp add: proxy_url_def sp_get_def)
  have r: "new_URL sample_world [] = Inl ''Invalid URL''"
    by (simp add: sample_parse sample_urls_def)
  from p q r show ?thesis
    by (simp add: handler_empty text_Response_def)
qed

text \<open>
  C2, amended. A request whose \<open>target\<close> value is present, is not the empty string and
  does not parse as a URL is answered with status 502 and the body \<open>Proxy Blocked: \<close>
  followed by the parser's message, and no upstream call is made.
\<close>

theorem unparsable_target_blocked:
  assumes "new_URL w (req_url req) = Inr u"
    and "sp_get (searchParams u) ''target'' = Some tp"
    and "tp \<noteq> []"
    and "new_URL w tp = Inl m"
  shows "outcome (handler w req) =
           Returned \<lparr>status = 502, statusText = [],
                     headers = [''content-type'' \<mapsto> ''text/plain;charset=UTF-8''],
                     body = Text (''Proxy Blocked: '' @ m)\<rparr>
         \<and> fetch_calls (events (handler w req)) = []"
  using assms by (simp add: handler_invalid catch_block_def text_Response_def)

theorem unparsable_target_blocked_witness:
  "new_URL sample_world (req_url (sample_request ''https://proxy.example/foo?target=example.com''))
     = Inr (proxy_url ''/foo'' [(''target'', ''example.com'')])
   \<and> sp_get (searchParams (proxy_url ''/foo'' [(''target'', ''example.com'')])) ''target''
     = Some ''example.com''
   \<and> new_URL sample_world ''example.com'' = Inl ''Invalid URL''
   \<and> outcome (handler sample_world (sample_request ''https://proxy.example/foo?target=example.com'')) =
           Returned \<lparr>status = 502, statusText = [],
                     headers = [''content-type'' \<mapsto> ''text/plain;charset=UTF-8''],
                     body = Text ''Proxy Blocked: Invalid URL''\<rparr>
   \<and> fetch_calls (events (handler sample_world
         (sample_request ''https://proxy.example/foo?target=example.com''))) = []"
proof -
  have p: "new_URL sample_world (req_url (sample_request ''https://proxy.example/foo?target=example.com''))
     = Inr (proxy_url ''/foo'' [(''target'', ''example.com'')])"
    by (simp add: sample_parse sample_request_simps sample_urls_def)
  have q: "sp_get (searchParams (proxy_url ''/foo'' [(''target'', ''example.com'')])) ''target''
     = Some ''example.com''"
    by (simp add: proxy_url_def sp_get_def)
  have r: "new_URL sample_world ''example.com'' = Inl ''Invalid URL''"
    by (simp add: sample_parse sample_urls_def)
  have n: "''example.com'' \<noteq> []" by simp
  from unparsable_target_blocked [OF p q n r] p q r show ?thesis by simp
qed

section \<open>The derived upstream URL\<close>

lemma handler_fetch_calls:
  assumes "new_URL w (req_url req) = Inr u" and "sp_get (searchParams u) ''target'' = Some tp"
    and "tp \<noteq> []" and "new_URL w tp = Inr t0"
  shows "fetch_calls (events (handler w req)) = [fetch_args req (derive_target u t0)]"
  using assms by (simp add: handler_events)

lemma copy_params_pathname [simp]: "pathname (copy_params ps t) = pathname t"
  by (induction ps arbitrary: t) auto

lemma copy_params_host [simp]: "host (copy_params ps t) = host t"
  by (induction ps arbitrary: t) auto

lemma filter_sp_set_same: "filter (\<lambda>p. fst p = n) (sp_set n v q) = [(n, v)]"
  by (induction q) (auto simp: filter_empty_conv)

lemma filter_sp_set_other:
  assumes "\<And>x. \<not> P (n, x)"
  shows "filter P (sp_set n v q) = filter P q"
proof (induction q)
  case Nil
  from assms show ?case by simp
next
  case (Cons p q)
  show ?case
  proof (cases "fst p = n")
    case True
    then have "\<not> P p" using assms [of "snd p"] by (cases p) simp
    moreover have "filter P (filter (\<lambda>q. fst q \<noteq> n) q) = filter P q"
      using assms by (auto intro!: filter_cong)
    ultimately show ?thesis using True assms by simp
  next
    case False
    with Cons show ?thesis by simp
  qed
qed

text \<open>Pairs that the loop does not write are left as they are, in their order.\<close>

lemma copy_params_untouched:
  assumes "\<And>k x. k \<in> fst ` set ps \<Longrightarrow> k \<noteq> ''target'' \<Longrightarrow> \<not> P (k, x)"
  shows "filter P (searchParams (copy_params ps t)) = filter P (searchParams t)"
  using assms
proof (induction ps arbitrary: t)
  case Nil
  show ?case by simp
next
  case (Cons a ps)
  obtain key v where a: "a = (key, v)" by (cases a)
  have rest: "filter P (searchParams (copy_params ps t')) = filter P (searchParams t')" for t'
    using Cons.prems by (intro Cons.IH) auto
  show ?case
  proof (cases "key = ''target''")
    case True
    with a rest show ?thesis by simp
  next
    case False
    then have "\<not> P (key, x)" for x using Cons.prems [of key x] a by simp
    then have "filter P (sp_set key v (searchParams t)) = filter P (searchParams t)"
      by (rule filter_sp_set_other)
    with a False rest show ?thesis by simp
  qed
qed

text \<open>A name the loop writes ends with one pair, holding the last inbound value.\<close>

lemma copy_params_written:
  assumes "k \<in> fst ` set ps" and "k \<noteq> ''target''"
  shows "filter (\<lambda>p. fst p = k) (searchParams (copy_params ps t)) =
           [(k, last (map snd (filter (\<lambda>p. fst p = k) ps)))]"
  using assms
proof (induction ps arbitrary: t)
  case Nil
  then show ?case by simp
next
  case (Cons a ps)
  obtain key v where a: "a = (key, v)" by (cases a)
  show ?case
  proof (cases "k \<in> fst ` set ps")
    case True
    then have ne: "filter (\<lambda>p. fst p = k) ps \<noteq> []"
      by (auto simp: filter_empty_conv)
    from True Cons.prems(2) have
      "filter (\<lambda>p. fst p = k) (searchParams (copy_params ps t')) =
         [(k, last (map snd (filter (\<lambda>p. fst p = k) ps)))]" for t'
      by (rule Cons.IH)
    with a ne show ?thesis by simp
  next
    case False
    with Cons.prems(1) a have key: "key = k" by auto
    from False have none: "filter (\<lambda>p. fst p = k) ps = []"
      by (auto simp: filter_empty_conv)
    have "filter (\<lambda>p. fst p = k) (searchParams (copy_params ps t')) =
            filter (\<lambda>p. fst p = k) (searchParams t')" for t'
      using False by (intro copy_params_untouched) auto
    with a key none Cons.prems(2) show ?thesis
      by (simp add: filter_sp_set_same)
  qed
qed

lemma searchParams_set_pathname [simp]: "searchParams (set_pathname t p) = searchParams t"
  by (simp add: set_pathname_def)

lemma host_set_pathname [simp]: "host (set_pathname t p) = host t"
  by (simp add: set_pathname_def)

lemma reparse_path_other: "scheme \<noteq> ''file:'' \<Longrightarrow> reparse_path scheme p = p"
  by (simp add: reparse_path_def split: list.split)

lemma reparse_path_http [simp]:
  "reparse_path ''http:'' p = p" "reparse_path ''https:'' p = p"
  by (simp_all add: reparse_path_other)

lemma pathname_derive_target:
  "pathname (derive_target u t0) =
     (if opaque_path t0 then pathname t0 else reparse_path (protocol t0) (pathname u))"
  by (simp add: derive_target_def set_pathname_def)

lemma host_derive_target: "host (derive_target u t0) = host t0"
  by (simp add: derive_target_def)

lemma fetch_args_simps [simp]:
  "fetch_url (fetch_args req t) = t"
  "fetch_headers (fetch_args req t) = outbound_headers req t"
  "fetch_method (fetch_args req t) = req_method req"
  "fetch_body (fetch_args req t) = req_body req"
  by (simp_all add: fetch_args_def)

text \<open>
  The path of the URL handed to \<open>fetch\<close>, for every request whose \<open>target\<close> parses: the
  path of the target when that is opaque, and otherwise the path of the inbound request
  as the setter parses it under the target's scheme.
\<close>

lemma derived_pathname:
  assumes "new_URL w (req_url req) = Inr u"
    and "sp_get (searchParams u) ''target'' = Some tp"
    and "tp \<noteq> []"
    and "new_URL w tp = Inr t0"
  shows "map (\<lambda>i. pathname (fetch_url i)) (fetch_calls (events (handler w req))) =
           [if opaque_path t0 then pathname t0 else reparse_path (protocol t0) (pathname u)]"
  using assms by (simp add: handler_fetch_calls pathname_derive_target)

text \<open>
  The part of C3 that the handler keeps: for an \<open>http:\<close> or \<open>https:\<close> target the URL called
  has the path of the inbound request, whatever the path of the target was.
\<close>

lemma http_target_takes_path:
  assumes "new_URL w (req_url req) = Inr u"
    and "sp_get (searchParams u) ''target'' = Some tp"
    and "tp \<noteq> []"
    and "new_URL w tp = Inr t0"
    and "protocol t0 = ''http:'' \<or> protocol t0 = ''https:''"
    and "\<not> opaque_path t0"
  shows "map (\<lambda>i. pathname (fetch_url i)) (fetch_calls (events (handler w req))) = [pathname u]"
  using derived_pathname [OF assms(1-4)] assms(5,6) by auto

lemma http_target_takes_path_example:
  "map (\<lambda>i. pathname (fetch_url i))
        (fetch_calls (events (handler sample_world
           (sample_request ''https://proxy.example/foo?target=https://example.com/bar&x=1''))))
     = [''/foo'']"
proof -
  have p: "new_URL sample_world (req_url (sample_request ''https://proxy.example/foo?target=https://example.com/bar&x=1''))
     = Inr (proxy_url ''/foo'' [(''target'', ''https://example.com/bar''), (''x'', ''1'')])"
    by (simp add: sample_parse sample_request_simps sample_urls_def)
  have q: "sp_get (searchParams (proxy_url ''/foo'' [(''target'', ''https://example.com/bar''), (''x'', ''1'')])) ''target''
     = Some ''https://example.com/bar''"
    by (simp add: proxy_url_def sp_get_def)
  have r: "new_URL sample_world ''https://example.com/bar'' = Inr (origin_url ''/bar'' [])"
    by (simp add: sample_parse sample_urls_def)
  have n: "''https://example.com/bar'' \<noteq> []" by simp
  have h: "protocol (origin_url ''/bar'' []) = ''http:'' \<or> protocol (origin_url ''/bar'' []) = ''https:''"
    "\<not> opaque_path (origin_url ''/bar'' [])"
    by (simp_all add: origin_url_def)
  from http_target_takes_path [OF p q n r h] show ?thesis
    by (simp add: proxy_url_def)
qed

text \<open>
  On a \<open>file:\<close> target the setter rewrites a leading drive letter: the request comes in on
  \<open>/C|/foo\<close> and the URL called has the path \<open>/C:/foo\<close>.
\<close>

lemma file_target_drive_letter:
  "map (\<lambda>i. pathname (fetch_url i))
        (fetch_calls (events (handler sample_world
           (sample_request ''https://proxy.example/C|/foo?target=file:///x''))))
     = [''/C:/foo'']"
proof -
  have p: "new_URL sample_world (req_url (sample_request ''https://proxy.example/C|/foo?target=file:///x''))
     = Inr (proxy_url ''/C|/foo'' [(''target'', ''file:///x'')])"
    by (simp add: sample_parse sample_request_simps sample_urls_def)
  have q: "sp_get (searchParams (proxy_url ''/C|/foo'' [(''target'', ''file:///x'')])) ''target''
     = Some ''file:///x''"
    by (simp add: proxy_url_def sp_get_def)
  have r: "new_URL sample_world ''file:///x'' = Inr file_url"
    by (simp add: sample_parse sample_urls_def)
  have n: "''file:///x'' \<noteq> []" by simp
  from derived_pathname [OF p q n r] show ?thesis
    by (simp add: file_url_def proxy_url_def reparse_path_def ascii_alpha_def)
qed

text \<open>
  C3 does not hold of the handler as it stands. The comment on line 27 says that the path
  of the request is passed through to the target URL, and the claim says that the URL
  called always has the path of the inbound request. A \<open>data:\<close> URL is an absolute URL
  with an opaque path, on which the assignment of line 28 has no effect: the request
  comes in on the path \<open>/foo\<close>, and the URL handed to \<open>fetch\<close> still has the path of the
  target, \<open>text/plain,hello\<close>.
\<close>

theorem opaque_target_keeps_path:
  "new_URL sample_world (req_url (sample_request ''https://proxy.example/foo?target=data:text/plain,hello''))
     = Inr (proxy_url ''/foo'' [(''target'', ''data:text/plain,hello'')])
   \<and> pathname (proxy_url ''/foo'' [(''target'', ''data:text/plain,hello'')]) = ''/foo''
   \<and> new_URL sample_world ''data:text/plain,hello'' = Inr data_url
   \<and> map (\<lambda>i. pathname (fetch_url i))
        (fetch_calls (events (handler sample_world
           (sample_request ''https://proxy.example/foo?target=data:text/plain,hello''))))
     = [''text/plain,hello'']"
proof -
  have p: "new_URL sample_world (req_url (sample_request ''https://proxy.example/foo?target=data:text/plain,hello''))
     = Inr (proxy_url ''/foo'' [(''target'', ''data:text/plain,hello'')])"
    by (simp add: sample_parse sample_request_simps sample_urls_def)
  have q: "sp_get (searchParams (proxy_url ''/foo'' [(''target'', ''data:text/plain,hello'')])) ''target''
     = Some ''data:text/plain,hello''"
    by (simp add: proxy_url_def sp_get_def)
  have r: "new_URL sample_world ''data:text/plain,hello'' = Inr data_url"
    by (simp add: sample_parse sample_urls_def)
  have n: "''data:text/plain,hello'' \<noteq> []" by simp
  from handler_fetch_calls [OF p q n r] p r show ?thesis
    by (simp add: pathname_derive_target) (simp add: data_url_def proxy_url_def)
qed

text \<open>
  C4. For a request whose \<open>target\<close> parses, exactly one upstream call is made, and the query
  parameters of the URL called are these: every inbound name other than \<open>target\<close> occurs
  once, with the value of its last inbound occurrence (a parameter of that name in the
  target's own query string is overwritten, and repeated inbound values do not
  accumulate); the target's parameters under names that are not inbound names, or under
  the name \<open>target\<close>, are kept as they were, in their order.
\<close>

theorem query_merge:
  assumes "new_URL w (req_url req) = Inr u"
    and "sp_get (searchParams u) ''target'' = Some tp"
    and "tp \<noteq> []"
    and "new_URL w tp = Inr t0"
  shows "\<exists>q. map (\<lambda>i. searchParams (fetch_url i)) (fetch_calls (events (handler w req))) = [q]
           \<and> (\<forall>k. k \<in> fst ` set (searchParams u) \<and> k \<noteq> ''target'' \<longrightarrow>
                  filter (\<lambda>p. fst p = k) q =
                    [(k, last (map snd (filter (\<lambda>p. fst p = k) (searchParams u))))])
           \<and> filter (\<lambda>p. fst p = ''target'' \<or> fst p \<notin> fst ` set (searchParams u)) q =
               filter (\<lambda>p. fst p = ''target'' \<or> fst p \<notin> fst ` set (searchParams u)) (searchParams t0)"
proof -
  let ?q = "searchParams (derive_target u t0)"
  have calls: "map (\<lambda>i. searchParams (fetch_url i)) (fetch_calls (events (handler w req))) = [?q]"
    using assms by (simp add: handler_fetch_calls)
  have written: "filter (\<lambda>p. fst p = k) ?q =
      [(k, last (map snd (filter (\<lambda>p. fst p = k) (searchParams u))))]"
    if "k \<in> fst ` set (searchParams u)" and "k \<noteq> ''target''" for k
    unfolding derive_target_def using that by (rule copy_params_written)
  let ?P = "\<lambda>p. fst p = ''target'' \<or> fst p \<notin> fst ` set (searchParams u)"
  have "filter ?P (searchParams (copy_params (searchParams u) (set_pathname t0 (pathname u)))) =
      filter ?P (searchParams (set_pathname t0 (pathname u)))"
    by (rule copy_params_untouched) simp
  then have kept: "filter ?P ?q = filter ?P (searchParams t0)"
    by (simp add: derive_target_def)
  show ?thesis
  proof (intro exI conjI allI impI)
    show "map (\<lambda>i. searchParams (fetch_url i)) (fetch_calls (events (handler w req))) = [?q]"
      by (rule calls)
    show "filter (\<lambda>p. fst p = k) ?q =
        [(k, last (map snd (filter (\<lambda>p. fst p = k) (searchParams u))))]"
      if "k \<in> fst ` set (searchParams u) \<and> k \<noteq> ''target''" for k
      using that written by simp
    show "filter ?P ?q = filter ?P (searchParams t0)"
      by (rule kept)
  qed
qed

theorem query_merge_witness:
  "new_URL sample_world (req_url (sample_request
       ''https://proxy.example/p?x=5&target=https%3A%2F%2Fexample.com%2F%3Fx%3D1%26y%3D7&x=2''))
     = Inr (proxy_url ''/p'' [(''x'', ''5''), (''target'', ''https://example.com/?x=1&y=7''), (''x'', ''2'')])
   \<and> new_URL sample_world ''https://example.com/?x=1&y=7''
     = Inr (origin_url ''/'' [(''x'', ''1''), (''y'', ''7'')])
   \<and> map (\<lambda>i. searchParams (fetch_url i))
        (fetch_calls (events (handler sample_world (sample_request
           ''https://proxy.example/p?x=5&target=https%3A%2F%2Fexample.com%2F%3Fx%3D1%26y%3D7&x=2''))))
     = [[(''x'', ''2''), (''y'', ''7'')]]"
proof -
  let ?u = "proxy_url ''/p'' [(''x'', ''5''), (''target'', ''https://example.com/?x=1&y=7''), (''x'', ''2'')]"
  let ?t = "origin_url ''/'' [(''x'', ''1''), (''y'', ''7'')]"
  let ?req = "sample_request
       ''https://proxy.example/p?x=5&target=https%3A%2F%2Fexample.com%2F%3Fx%3D1%26y%3D7&x=2''"
  have p: "new_URL sample_world (req_url ?req) = Inr ?u"
    by (simp add: sample_parse sample_request_simps sample_urls_def)
  have q: "sp_get (searchParams ?u) ''target'' = Some ''https://example.com/?x=1&y=7''"
    by (simp add: proxy_url_def sp_get_def)
  have r: "new_URL sample_world ''https://example.com/?x=1&y=7'' = Inr ?t"
    by (simp add: sample_parse sample_urls_def)
  have n: "''https://example.com/?x=1&y=7'' \<noteq> []" by simp
  from query_merge [OF p q n r] obtain q where
    calls: "map (\<lambda>i. searchParams (fetch_url i)) (fetch_calls (events (handler sample_world ?req))) = [q]"
    and written: "\<forall>k. k \<in> fst ` set (searchParams ?u) \<and> k \<noteq> ''target'' \<longrightarrow>
                  filter (\<lambda>p. fst p = k) q =
                    [(k, last (map snd (filter (\<lambda>p. fst p = k) (searchParams ?u))))]"
    and kept: "filter (\<lambda>p. fst p = ''target'' \<or> fst p \<notin> fst ` set (searchParams ?u)) q =
               filter (\<lambda>p. fst p = ''target'' \<or> fst p \<notin> fst ` set (searchParams ?u)) (searchParams ?t)"
    by (elim exE conjE)
  have x: "filter (\<lambda>p. fst p = ''x'') q = [(''x'', ''2'')]"
    using written [rule_format, of "''x''"] by (simp add: proxy_url_def)
  have "q = [(''x'', ''2''), (''y'', ''7'')]"
    using calls
    by (simp add: handler_fetch_calls [OF p q n r] derive_target_def set_pathname_def
        proxy_url_def origin_url_def)
  with calls p r show ?thesis by simp
qed

section \<open>The outbound headers\<close>

lemma lower_Host: "lower ''Host'' = ''host''"
  by (simp add: lower_def lower_char_def)

lemma lower_forwarded: "lower ''x-forwarded-host'' = ''x-forwarded-host''"
  by (simp add: lower_def lower_char_def)

lemma lower_vercel: "lower ''x-vercel-id'' = ''x-vercel-id''"
  by (simp add: lower_def lower_char_def)

lemma outbound_headers_get:
  "headers_get (outbound_headers req t) n =
     (if lower n = ''x-vercel-id'' \<or> lower n = ''x-forwarded-host'' then None
      else if lower n = ''host'' then Some (host t)
      else headers_get (req_headers req) n)"
  by (simp add: outbound_headers_def headers_get_def headers_set_def headers_delete_def
      lower_Host lower_forwarded lower_vercel)

text \<open>
  C5. For a request whose \<open>target\<close> parses, the upstream call is always reached, and its
  headers are the inbound headers with three changes: \<open>Host\<close> is the host (authority) of the
  URL called, which is the host of the target; \<open>x-forwarded-host\<close> and \<open>x-vercel-id\<close> are
  absent; every other header reads as it does on the inbound request.
\<close>

theorem header_rewrite:
  assumes "new_URL w (req_url req) = Inr u"
    and "sp_get (searchParams u) ''target'' = Some tp"
    and "tp \<noteq> []"
    and "new_URL w tp = Inr t0"
  shows "\<exists>init. fetch_calls (events (handler w req)) = [init]
           \<and> host (fetch_url init) = host t0
           \<and> headers_get (fetch_headers init) ''Host'' = Some (host (fetch_url init))
           \<and> headers_get (fetch_headers init) ''x-forwarded-host'' = None
           \<and> headers_get (fetch_headers init) ''x-vercel-id'' = None
           \<and> (\<forall>n. lower n \<notin> {''host'', ''x-forwarded-host'', ''x-vercel-id''} \<longrightarrow>
                  headers_get (fetch_headers init) n = headers_get (req_headers req) n)"
proof -
  let ?init = "fetch_args req (derive_target u t0)"
  have "fetch_calls (events (handler w req)) = [?init]"
    using assms by (rule handler_fetch_calls)
  moreover have "host (fetch_url ?init) = host t0"
    by (simp add: host_derive_target)
  moreover have "headers_get (fetch_headers ?init) ''Host'' = Some (host (fetch_url ?init))"
    by (simp add: outbound_headers_get lower_Host)
  moreover have "headers_get (fetch_headers ?init) ''x-forwarded-host'' = None"
    by (simp add: outbound_headers_get lower_forwarded)
  moreover have "headers_get (fetch_headers ?init) ''x-vercel-id'' = None"
    by (simp add: outbound_headers_get lower_vercel)
  moreover have "\<forall>n. lower n \<notin> {''host'', ''x-forwarded-host'', ''x-vercel-id''} \<longrightarrow>
      headers_get (fetch_headers ?init) n = headers_get (req_headers req) n"
    by (simp add: outbound_headers_get)
  ultimately show ?thesis by blast
qed

theorem header_rewrite_witness:
  "new_URL sample_world (req_url (sample_request ''https://proxy.example/foo?target=https://example.com/bar&x=1''))
     = Inr (proxy_url ''/foo'' [(''target'', ''https://example.com/bar''), (''x'', ''1'')])
   \<and> new_URL sample_world ''https://example.com/bar'' = Inr (origin_url ''/bar'' [])
   \<and> headers_get (req_headers (sample_request ''https://proxy.example/foo?target=https://example.com/bar&x=1'')) ''Host''
     = Some ''proxy.example''
   \<and> headers_get (req_headers (sample_request ''https://proxy.example/foo?target=https://example.com/bar&x=1'')) ''X-Vercel-Id''
     = Some ''fra1::k9x2m''
   \<and> map (\<lambda>i. (headers_get (fetch_headers i) ''Host'', headers_get (fetch_headers i) ''X-Forwarded-Host'',
                 headers_get (fetch_headers i) ''X-Vercel-Id'', headers_get (fetch_headers i) ''Accept''))
        (fetch_calls (events (handler sample_world
           (sample_request ''https://proxy.example/foo?target=https://example.com/bar&x=1''))))
     = [(Some ''example.com'', None, None, Some ''text/html'')]"
proof -
  let ?u = "proxy_url ''/foo'' [(''target'', ''https://example.com/bar''), (''x'', ''1'')]"
  let ?req = "sample_request ''https://proxy.example/foo?target=https://example.com/bar&x=1''"
  have p: "new_URL sample_world (req_url ?req) = Inr ?u"
    by (simp add: sample_parse sample_request_simps sample_urls_def)
  have q: "sp_get (searchParams ?u) ''target'' = Some ''https://example.com/bar''"
    by (simp add: proxy_url_def sp_get_def)
  have r: "new_URL sample_world ''https://example.com/bar'' = Inr (origin_url ''/bar'' [])"
    by (simp add: sample_parse sample_urls_def)
  have n: "''https://example.com/bar'' \<noteq> []" by simp
  have low: "lower ''X-Forwarded-Host'' = ''x-forwarded-host''" "lower ''X-Vercel-Id'' = ''x-vercel-id''"
    "lower ''Accept'' = ''accept''"
    by (simp_all add: lower_def lower_char_def)
  from header_rewrite [OF p q n r] obtain init where
    calls: "fetch_calls (events (handler sample_world ?req)) = [init]"
    and h: "host (fetch_url init) = host (origin_url ''/bar'' [])"
      "headers_get (fetch_headers init) ''Host'' = Some (host (fetch_url init))"
    and others: "\<forall>n. lower n \<notin> {''host'', ''x-forwarded-host'', ''x-vercel-id''} \<longrightarrow>
                  headers_get (fetch_headers init) n = headers_get (req_headers ?req) n"
    by (elim exE conjE)
  have init: "init = fetch_args ?req (derive_target ?u (origin_url ''/bar'' []))"
    using calls by (simp add: handler_fetch_calls [OF p q n r])
  have inbound: "headers_get (req_headers ?req) ''Host'' = Some ''proxy.example''"
    "headers_get (req_headers ?req) ''X-Vercel-Id'' = Some ''fra1::k9x2m''"
    "headers_get (req_headers ?req) ''Accept'' = Some ''text/html''"
    by (simp_all add: sample_request_simps sample_headers_def headers_get_def lower_Host low)
  have acc: "headers_get (fetch_headers init) ''Accept'' = Some ''text/html''"
    using others [rule_format, of "''Accept''"] inbound by (simp add: low)
  have out: "headers_get (fetch_headers init) ''X-Forwarded-Host'' = None"
    "headers_get (fetch_headers init) ''X-Vercel-Id'' = None"
    by (simp_all add: init outbound_headers_get low)
  from calls p r h acc out inbound show ?thesis
    by (simp add: origin_url_def)
qed

section \<open>The relay\<close>


lemma signal_fired_Cleared [simp]: "\<not> signal_fired Cleared now"
  by (simp add: signal_fired_def)

text \<open>With the timer cleared the pipe looks at the bytes only, not at the arrival times.\<close>

lemma pipeTo_Cleared_times:
  "map snd cs = map snd cs' \<Longrightarrow> pipeTo Cleared cs s = pipeTo Cleared cs' s"
proof (induction cs arbitrary: cs' s)
  case Nil
  then show ?case by simp
next
  case (Cons a cs)
  then obtain a' ds where cs': "cs' = a' # ds" and "snd a = snd a'" and "map snd cs = map snd ds"
    by (cases cs') auto
  with Cons.IH [of ds] show ?case
    by (cases a; cases a') (simp add: Let_def split: stream_state.split)
qed

text \<open>A body that stays within the limit passes whole, and the relay is closed.\<close>

lemma pipeTo_within:
  "n + sum_list (map length (map snd cs)) \<le> MAX_BYTES \<Longrightarrow>
   pipeTo Cleared cs \<lparr>downloadedBytes = n, enqueued = q, state = Open\<rparr> =
     (\<lparr>downloadedBytes = n + sum_list (map length (map snd cs)),
       enqueued = q @ map snd cs, state = Closed\<rparr>, Fulfilled ())"
proof (induction cs arbitrary: n q)
  case Nil
  show ?case by simp
next
  case (Cons a cs)
  obtain at c where a: "a = (at, c)" by (cases a)
  from Cons.prems a have le: "n + length c \<le> MAX_BYTES"
    and rest: "(n + length c) + sum_list (map length (map snd cs)) \<le> MAX_BYTES"
    by simp_all
  from Cons.IH [OF rest, of "q @ [c]"] a le show ?case
    by (simp add: transform_def add.assoc)
qed


lemma fetch_in_time:
  "at < MAX_DURATION_MS \<Longrightarrow> fetch (Armed MAX_DURATION_MS) (Responds at r) = Fulfilled r"
  by (simp add: fetch_def signal_fired_def)

lemma new_Response_ok:
  "200 \<le> st \<Longrightarrow> st \<le> 599 \<Longrightarrow> \<not> null_body_status st \<Longrightarrow>
   new_Response b st stt hs = Inr \<lparr>status = st, statusText = stt, headers = hs, body = b\<rparr>"
  by (simp add: new_Response_def)

text \<open>
  The part of C6 that the handler keeps: an upstream answer with a body of \<open>N\<close> bytes,
  \<open>N \<le> MAX_BYTES\<close>, and a status with which a response may carry a body, is relayed whole
  under the upstream's status and headers, and the relay is closed.
\<close>

lemma relay_within_limit:
  assumes "new_URL w (req_url req) = Inr u"
    and "sp_get (searchParams u) ''target'' = Some tp"
    and "tp \<noteq> []"
    and "new_URL w tp = Inr t0"
    and "upstream w (fetch_args req (derive_target u t0)) = Responds at r"
    and "at < MAX_DURATION_MS"
    and "body r = Some cs"
    and "sum_list (map length (map snd cs)) \<le> MAX_BYTES"
    and "200 \<le> status r" and "status r \<le> 599" and "\<not> null_body_status (status r)"
  shows "outcome (handler w req) =
           Returned \<lparr>status = status r, statusText = statusText r, headers = headers r,
                     body = Stream \<lparr>downloadedBytes = sum_list (map length (map snd cs)),
                                    enqueued = map snd cs, state = Closed\<rparr>\<rparr>
         \<and> unhandled (handler w req) = []"
proof -
  have f: "fetch (Armed MAX_DURATION_MS) (upstream w (fetch_args req (derive_target u t0))) = Fulfilled r"
    using assms(5,6) by (simp add: fetch_in_time)
  have "pipeTo Cleared cs \<lparr>downloadedBytes = 0, enqueued = [], state = Open\<rparr> =
      (\<lparr>downloadedBytes = 0 + sum_list (map length (map snd cs)),
        enqueued = [] @ map snd cs, state = Closed\<rparr>, Fulfilled ())"
    using assms(8) by (intro pipeTo_within) simp
  then have r: "relay Cleared r =
      (\<lparr>downloadedBytes = sum_list (map length (map snd cs)), enqueued = map snd cs, state = Closed\<rparr>,
       Fulfilled ())"
    using assms(7) by (simp add: relay_def catch_promise_def)
  show ?thesis
    using handler_fulfilled [OF assms(1-4) f] r assms(9-11)
    by (simp add: new_Response_ok unhandled_of_def)
qed

text \<open>
  C6 does not hold of the handler as it stands. An upstream answer \<open>304 Not Modified\<close> has
  no body (zero bytes, within the limit), but the handler always hands the readable side
  of the relay to \<open>new Response\<close>, which refuses a body together with a null body status;
  the \<open>catch\<close> block turns that into a 502, so the upstream's status and headers are lost.
\<close>

theorem not_modified_blocked:
  "upstream sample_world
     (fetch_args (sample_request ''https://proxy.example/cached?target=https://example.com'')
        (derive_target (proxy_url ''/cached'' [(''target'', ''https://example.com'')]) (origin_url ''/'' [])))
     = Responds 25 \<lparr>status = 304, statusText = ''Not Modified'', headers = Map.empty, body = None\<rparr>
   \<and> outcome (handler sample_world (sample_request ''https://proxy.example/cached?target=https://example.com'')) =
           Returned \<lparr>status = 502, statusText = [],
                     headers = [''content-type'' \<mapsto> ''text/plain;charset=UTF-8''],
                     body = Text ''Proxy Blocked: Response constructor: Invalid response status code 304''\<rparr>"
proof -
  let ?u = "proxy_url ''/cached'' [(''target'', ''https://example.com'')]"
  let ?req = "sample_request ''https://proxy.example/cached?target=https://example.com''"
  have p: "new_URL sample_world (req_url ?req) = Inr ?u"
    by (simp add: sample_parse sample_request_simps sample_urls_def)
  have q: "sp_get (searchParams ?u) ''target'' = Some ''https://example.com''"
    by (simp add: proxy_url_def sp_get_def)
  have r: "new_URL sample_world ''https://example.com'' = Inr (origin_url ''/'' [])"
    by (simp add: sample_parse sample_urls_def)
  have n: "''https://example.com'' \<noteq> []" by simp
  have up: "upstream sample_world (fetch_args ?req (derive_target ?u (origin_url ''/'' [])))
      = Responds 25 not_modified"
    by (simp add: sample_world_def sample_upstream_def pathname_derive_target origin_url_def proxy_url_def)
  have f: "fetch (Armed MAX_DURATION_MS)
      (upstream sample_world (fetch_args ?req (derive_target ?u (origin_url ''/'' [])))) = Fulfilled not_modified"
    by (simp add: up fetch_def signal_fired_def MAX_DURATION_MS_def)
  have resp: "new_Response (Stream (fst (relay Cleared not_modified))) (status not_modified)
        (statusText not_modified) (headers not_modified)
      = Inl (JsError ''TypeError'' ''Response constructor: Invalid response status code 304'')"
    by (simp add: new_Response_def not_modified_def null_body_status_def digit_char_def)
  from handler_fulfilled(1) [OF p q n r f] resp up show ?thesis
    by (simp add: catch_block_def text_Response_def not_modified_def)
qed



section \<open>The deadline\<close>

lemma fetch_too_late:
  "MAX_DURATION_MS \<le> reply_time rep \<Longrightarrow> fetch (Armed MAX_DURATION_MS) rep = Rejected abort_error"
  by (cases rep) (simp_all add: fetch_def signal_fired_def)

lemma fetch_fault_in_time:
  "at < MAX_DURATION_MS \<Longrightarrow>
   fetch (Armed MAX_DURATION_MS) (Faults at m) = Rejected (JsError ''TypeError'' m)"
  by (simp add: fetch_def signal_fired_def)

lemma catch_block_abort:
  "catch_block abort_error = text_Response ''Proxy Blocked: Connection Timed Out (Policy Limit)'' 502"
  by (simp add: catch_block_def abort_error_def)

lemma catch_block_fault:
  "catch_block (JsError ''TypeError'' m) = text_Response (''Proxy Blocked: '' @ m) 502"
  by (simp add: catch_block_def)

text \<open>
  C8. When the deadline of \<open>MAX_DURATION_MS\<close> passes before the upstream call has settled,
  the signal aborts the call and the handler answers 502 with the fixed body
  \<open>Proxy Blocked: Connection Timed Out (Policy Limit)\<close>. A network fault that arrives before
  the deadline is answered 502 as well, with the fault's own message after the prefix:
  the \<open>catch\<close> block tells the two apart by the name of the error, which is \<open>AbortError\<close>
  for the abort reason only.
\<close>

theorem timeout_reported:
  assumes "new_URL w (req_url req) = Inr u"
    and "sp_get (searchParams u) ''target'' = Some tp"
    and "tp \<noteq> []"
    and "new_URL w tp = Inr t0"
    and "upstream w (fetch_args req (derive_target u t0)) = rep"
  shows "(MAX_DURATION_MS \<le> reply_time rep \<longrightarrow>
            outcome (handler w req) =
              Returned \<lparr>status = 502, statusText = [],
                        headers = [''content-type'' \<mapsto> ''text/plain;charset=UTF-8''],
                        body = Text ''Proxy Blocked: Connection Timed Out (Policy Limit)''\<rparr>)
         \<and> (\<forall>at m. rep = Faults at m \<and> at < MAX_DURATION_MS \<longrightarrow>
               outcome (handler w req) =
                 Returned \<lparr>status = 502, statusText = [],
                           headers = [''content-type'' \<mapsto> ''text/plain;charset=UTF-8''],
                           body = Text (''Proxy Blocked: '' @ m)\<rparr>)"
proof (intro conjI allI impI)
  assume "MAX_DURATION_MS \<le> reply_time rep"
  then have "fetch (Armed MAX_DURATION_MS) (upstream w (fetch_args req (derive_target u t0)))
      = Rejected abort_error"
    using assms(5) by (simp add: fetch_too_late)
  from handler_rejected(1) [OF assms(1-4) this]
  show "outcome (handler w req) =
      Returned \<lparr>status = 502, statusText = [],
                headers = [''content-type'' \<mapsto> ''text/plain;charset=UTF-8''],
                body = Text ''Proxy Blocked: Connection Timed Out (Policy Limit)''\<rparr>"
    by (simp add: catch_block_abort text_Response_def)
next
  fix at m
  assume "rep = Faults at m \<and> at < MAX_DURATION_MS"
  then have "fetch (Armed MAX_DURATION_MS) (upstream w (fetch_args req (derive_target u t0)))
      = Rejected (JsError ''TypeError'' m)"
    using assms(5) by (simp add: fetch_fault_in_time)
  from handler_rejected(1) [OF assms(1-4) this]
  show "outcome (handler w req) =
      Returned \<lparr>status = 502, statusText = [],
                headers = [''content-type'' \<mapsto> ''text/plain;charset=UTF-8''],
                body = Text (''Proxy Blocked: '' @ m)\<rparr>"
    by (simp add: catch_block_fault text_Response_def)
qed

theorem timeout_reported_witness:
  "upstream sample_world
        (fetch_args (sample_request ''https://proxy.example/slow?target=https://example.com'')
           (derive_target (proxy_url ''/slow'' [(''target'', ''https://example.com'')]) (origin_url ''/'' [])))
     = Responds 20000 page
   \<and> MAX_DURATION_MS \<le> reply_time (Responds 20000 page)
   \<and> outcome (handler sample_world (sample_request ''https://proxy.example/slow?target=https://example.com'')) =
        Returned \<lparr>status = 502, statusText = [],
                  headers = [''content-type'' \<mapsto> ''text/plain;charset=UTF-8''],
                  body = Text ''Proxy Blocked: Connection Timed Out (Policy Limit)''\<rparr>
   \<and> upstream sample_world
        (fetch_args (sample_request ''https://proxy.example/down?target=https://example.com'')
           (derive_target (proxy_url ''/down'' [(''target'', ''https://example.com'')]) (origin_url ''/'' [])))
     = Faults 30 ''fetch failed''
   \<and> 30 < MAX_DURATION_MS
   \<and> outcome (handler sample_world (sample_request ''https://proxy.example/down?target=https://example.com'')) =
        Returned \<lparr>status = 502, statusText = [],
                  headers = [''content-type'' \<mapsto> ''text/plain;charset=UTF-8''],
                  body = Text ''Proxy Blocked: fetch failed''\<rparr>"
proof -
  let ?us = "proxy_url ''/slow'' [(''target'', ''https://example.com'')]"
  let ?rs = "sample_request ''https://proxy.example/slow?target=https://example.com''"
  let ?ud = "proxy_url ''/down'' [(''target'', ''https://example.com'')]"
  let ?rd = "sample_request ''https://proxy.example/down?target=https://example.com''"
  have ps: "new_URL sample_world (req_url ?rs) = Inr ?us"
    by (simp add: sample_parse sample_request_simps sample_urls_def)
  have qs: "sp_get (searchParams ?us) ''target'' = Some ''https://example.com''"
    by (simp add: proxy_url_def sp_get_def)
  have pd: "new_URL sample_world (req_url ?rd) = Inr ?ud"
    by (simp add: sample_parse sample_request_simps sample_urls_def)
  have qd: "sp_get (searchParams ?ud) ''target'' = Some ''https://example.com''"
    by (simp add: proxy_url_def sp_get_def)
  have r: "new_URL sample_world ''https://example.com'' = Inr (origin_url ''/'' [])"
    by (simp add: sample_parse sample_urls_def)
  have n: "''https://example.com'' \<noteq> []" by simp
  have ups: "upstream sample_world (fetch_args ?rs (derive_target ?us (origin_url ''/'' [])))
      = Responds 20000 page"
    by (simp add: sample_world_def sample_upstream_def pathname_derive_target origin_url_def proxy_url_def)
  have upd: "upstream sample_world (fetch_args ?rd (derive_target ?ud (origin_url ''/'' [])))
      = Faults 30 ''fetch failed''"
    by (simp add: sample_world_def sample_upstream_def pathname_derive_target origin_url_def proxy_url_def)
  have late: "MAX_DURATION_MS \<le> reply_time (Responds 20000 page)"
    by (simp add: MAX_DURATION_MS_def)
  have early: "(30::nat) < MAX_DURATION_MS"
    by (simp add: MAX_DURATION_MS_def)
  have slow: "outcome (handler sample_world ?rs) =
        Returned \<lparr>status = 502, statusText = [],
                  headers = [''content-type'' \<mapsto> ''text/plain;charset=UTF-8''],
                  body = Text ''Proxy Blocked: Connection Timed Out (Policy Limit)''\<rparr>"
    using timeout_reported [OF ps qs n r ups] late by (elim conjE impE)
  have down: "outcome (handler sample_world ?rd) =
        Returned \<lparr>status = 502, statusText = [],
                  headers = [''content-type'' \<mapsto> ''text/plain;charset=UTF-8''],
                  body = Text (''Proxy Blocked: '' @ ''fetch failed'')\<rparr>"
    using timeout_reported [OF pd qd n r upd] early by (elim conjE allE [of _ 30] allE [of _ "''fetch failed''"]) simp
  from slow down ups upd late early show ?thesis by simp
qed

lemma pipeTo_Cleared_no_abort:
  "state s \<noteq> Errored abort_error \<Longrightarrow> state (fst (pipeTo Cleared cs s)) \<noteq> Errored abort_error"
proof (induction cs arbitrary: s)
  case Nil
  show ?case by simp
next
  case (Cons a cs)
  obtain at c where a: "a = (at, c)" by (cases a)
  have t: "state (transform c s) \<noteq> Errored abort_error"
    using Cons.prems by (simp add: transform_def Let_def abort_error_def)
  from Cons.IH [OF t] t a show ?case
    by (auto simp: Let_def split: stream_state.split)
qed

text \<open>
  C9. When the upstream answers before the deadline, the handler clears the timer before
  the body is relayed: the timer is cleared when the handler returns, its signal fires
  at no later time, and the relay of the body does not end with the abort reason. What
  the caller gets then depends on the bytes of the body only: an upstream that sends the
  same status, headers and chunks at other times, however late, yields the same answer.
\<close>

theorem deadline_disarmed:
  assumes "new_URL w (req_url req) = Inr u"
    and "sp_get (searchParams u) ''target'' = Some tp"
    and "tp \<noteq> []"
    and "new_URL w tp = Inr t0"
    and "upstream w (fetch_args req (derive_target u t0)) = Responds at r"
    and "at < MAX_DURATION_MS"
    and "new_URL w' = new_URL w"
    and "upstream w' (fetch_args req (derive_target u t0)) = Responds at' (r\<lparr>body := b'\<rparr>)"
    and "at' < MAX_DURATION_MS"
    and "map_option (map snd) b' = map_option (map snd) (body r)"
  shows "timeoutId (handler w req) = Cleared
         \<and> (\<forall>now. \<not> signal_fired (timeoutId (handler w req)) now)
         \<and> state (fst (relay (timeoutId (handler w req)) r)) \<noteq> Errored abort_error
         \<and> outcome (handler w' req) = outcome (handler w req)"
proof -
  have f: "fetch (Armed MAX_DURATION_MS) (upstream w (fetch_args req (derive_target u t0))) = Fulfilled r"
    using assms(5,6) by (simp add: fetch_in_time)
  have f': "fetch (Armed MAX_DURATION_MS) (upstream w' (fetch_args req (derive_target u t0)))
      = Fulfilled (r\<lparr>body := b'\<rparr>)"
    using assms(8,9) by (simp add: fetch_in_time)
  have wf': "new_URL w' (req_url req) = Inr u" "new_URL w' tp = Inr t0"
    using assms(1,4,7) by simp_all
  have cleared: "timeoutId (handler w req) = Cleared"
    by (rule handler_fulfilled(2) [OF assms(1-4) f])
  have same: "relay Cleared (r\<lparr>body := b'\<rparr>) = relay Cleared r"
  proof (cases "body r")
    case None
    with assms(10) show ?thesis by (simp add: relay_def)
  next
    case (Some cs)
    with assms(10) obtain cs' where b': "b' = Some cs'" and "map snd cs' = map snd cs"
      by (cases b') auto
    then have "pipeTo Cleared cs' s = pipeTo Cleared cs s" for s
      by (intro pipeTo_Cleared_times)
    with Some b' show ?thesis by (simp add: relay_def)
  qed
  have no_abort: "state (fst (relay Cleared r)) \<noteq> Errored abort_error"
  proof (cases "body r")
    case None
    then show ?thesis by (simp add: relay_def)
  next
    case (Some cs)
    have "state (fst (pipeTo Cleared cs \<lparr>downloadedBytes = 0, enqueued = [], state = Open\<rparr>))
        \<noteq> Errored abort_error"
      by (rule pipeTo_Cleared_no_abort) simp
    with Some show ?thesis by (auto simp: relay_def split: prod.split)
  qed
  have "outcome (handler w' req) = outcome (handler w req)"
    using handler_fulfilled(1) [OF assms(1-4) f] handler_fulfilled(1) [OF wf'(1) assms(2,3) wf'(2) f'] same
    by simp
  with cleared no_abort show ?thesis by simp
qed

theorem deadline_disarmed_witness:
  "upstream sample_world
        (fetch_args (sample_request ''https://proxy.example/foo?target=https://example.com/bar&x=1'')
           (derive_target (proxy_url ''/foo'' [(''target'', ''https://example.com/bar''), (''x'', ''1'')])
              (origin_url ''/bar'' [])))
     = Responds 40 page
   \<and> body page = Some [(50, [104, 105]), (20000, [33])]
   \<and> 40 < MAX_DURATION_MS \<and> MAX_DURATION_MS < 20000
   \<and> timeoutId (handler sample_world
        (sample_request ''https://proxy.example/foo?target=https://example.com/bar&x=1'')) = Cleared
   \<and> outcome (handler sample_world
        (sample_request ''https://proxy.example/foo?target=https://example.com/bar&x=1'')) =
        Returned \<lparr>status = 200, statusText = ''OK'', headers = [''content-type'' \<mapsto> ''text/html''],
                  body = Stream \<lparr>downloadedBytes = 3, enqueued = [[104, 105], [33]], state = Closed\<rparr>\<rparr>
   \<and> outcome (handler prompt_world
        (sample_request ''https://proxy.example/foo?target=https://example.com/bar&x=1'')) =
      outcome (handler sample_world
        (sample_request ''https://proxy.example/foo?target=https://example.com/bar&x=1''))"
proof -
  let ?u = "proxy_url ''/foo'' [(''target'', ''https://example.com/bar''), (''x'', ''1'')]"
  let ?req = "sample_request ''https://proxy.example/foo?target=https://example.com/bar&x=1''"
  let ?t = "origin_url ''/bar'' []"
  have p: "new_URL sample_world (req_url ?req) = Inr ?u"
    by (simp add: sample_parse sample_request_simps sample_urls_def)
  have q: "sp_get (searchParams ?u) ''target'' = Some ''https://example.com/bar''"
    by (simp add: proxy_url_def sp_get_def)
  have r: "new_URL sample_world ''https://example.com/bar'' = Inr ?t"
    by (simp add: sample_parse sample_urls_def)
  have n: "''https://example.com/bar'' \<noteq> []" by simp
  have up: "upstream sample_world (fetch_args ?req (derive_target ?u ?t)) = Responds 40 page"
    by (simp add: sample_world_def sample_upstream_def pathname_derive_target origin_url_def proxy_url_def)
  have up': "upstream prompt_world (fetch_args ?req (derive_target ?u ?t))
      = Responds 10 (page\<lparr>body := Some [(10, [104, 105]), (10, [33])]\<rparr>)"
    by (simp add: prompt_world_def)
  have same_parser: "new_URL prompt_world = new_URL sample_world"
    by (simp add: prompt_world_def sample_world_def)
  have at: "(40::nat) < MAX_DURATION_MS" "(10::nat) < MAX_DURATION_MS" "MAX_DURATION_MS < 20000"
    by (simp_all add: MAX_DURATION_MS_def)
  have b: "map_option (map snd) (Some [(10::nat, [104, 105 :: byte]), (10, [33])])
      = map_option (map snd) (body page)"
    by (simp add: page_def)
  have f: "fetch (Armed MAX_DURATION_MS) (upstream sample_world (fetch_args ?req (derive_target ?u ?t)))
      = Fulfilled page"
    using up at(1) by (simp add: fetch_in_time)
  have rel: "relay Cleared page =
      (\<lparr>downloadedBytes = 3, enqueued = [[104, 105], [33]], state = Closed\<rparr>, Fulfilled ())"
    by (simp add: relay_def page_def transform_def MAX_BYTES_def catch_promise_def)
  have out: "outcome (handler sample_world ?req) =
      Returned \<lparr>status = 200, statusText = ''OK'', headers = [''content-type'' \<mapsto> ''text/html''],
                body = Stream \<lparr>downloadedBytes = 3, enqueued = [[104, 105], [33]], state = Closed\<rparr>\<rparr>"
    using handler_fulfilled(1) [OF p q n r f] rel
    by (simp add: new_Response_def null_body_status_def page_def)
  from deadline_disarmed [OF p q n r up at(1) same_parser up' at(2) b] out up at
  show ?thesis by (simp add: page_def)
qed

end
